theory Spec2Isabelle
  imports Main
begin

section \<open>Python values\<close>

text \<open>
  The forms of \<^verbatim>\<open>bukuserver/forms.py\<close> receive a mapping \<^verbatim>\<open>Dict[str, Any]\<close> decoded
  from a request body. The values modelled are the ones such a body holds: None, booleans,
  integers, strings, lists and dictionaries with string keys.
\<close>

datatype pyval =
    PNone
  | PBool bool
  | PInt int
  | PStr string
  | PList "pyval list"
  | PDict "(string \<times> pyval) list"

text \<open>Python's truth value of an object (\<^verbatim>\<open>bool(x)\<close>, \<^verbatim>\<open>if x\<close>, \<^verbatim>\<open>x and y\<close>).\<close>

fun truthy :: "pyval \<Rightarrow> bool" where
  "truthy PNone = False"
| "truthy (PBool b) = b"
| "truthy (PInt i) = (i \<noteq> 0)"
| "truthy (PStr s) = (s \<noteq> [])"
| "truthy (PList xs) = (xs \<noteq> [])"
| "truthy (PDict kvs) = (kvs \<noteq> [])"

fun isinstance_str :: "pyval \<Rightarrow> bool" where
  "isinstance_str (PStr s) = True"
| "isinstance_str v = False"

fun isinstance_list :: "pyval \<Rightarrow> bool" where
  "isinstance_list (PList xs) = True"
| "isinstance_list v = False"

datatype exn = TypeError | AttributeError

text \<open>
  Iterating a value (\<^verbatim>\<open>for x in v\<close>): a list gives its items, a string its characters, a
  dictionary its keys; None, booleans and integers are not iterable.
\<close>

fun py_iter :: "pyval \<Rightarrow> exn + pyval list" where
  "py_iter (PList xs) = Inr xs"
| "py_iter (PStr s) = Inr (map (\<lambda>c. PStr [c]) s)"
| "py_iter (PDict kvs) = Inr (map (\<lambda>kv. PStr (fst kv)) kvs)"
| "py_iter v = Inl TypeError"

text \<open>\<^verbatim>\<open>sep.join(items)\<close> on strings.\<close>

fun join :: "char \<Rightarrow> string list \<Rightarrow> string" where
  "join d [] = []"
| "join d [x] = x"
| "join d (x # y # ys) = x @ d # join d (y # ys)"

text \<open>
  \<^verbatim>\<open>sep.join(v)\<close> on any value: TypeError when \<^verbatim>\<open>v\<close> is not iterable or one of its items
  is not a string.
\<close>

fun strs_of :: "pyval list \<Rightarrow> exn + string list" where
  "strs_of [] = Inr []"
| "strs_of (PStr s # vs) = (case strs_of vs of Inl e \<Rightarrow> Inl e | Inr ss \<Rightarrow> Inr (s # ss))"
| "strs_of (v # vs) = Inl TypeError"

definition py_join :: "char \<Rightarrow> pyval \<Rightarrow> exn + string" where
  "py_join d v =
     (case py_iter v of
        Inl e \<Rightarrow> Inl e
      | Inr items \<Rightarrow> (case strs_of items of Inl e \<Rightarrow> Inl e | Inr ss \<Rightarrow> Inr (join d ss)))"

text \<open>
  \<^verbatim>\<open>str.strip()\<close> removes leading and trailing whitespace. Strings are lists of
  \<^typ>\<open>char\<close>, so the whitespace characters are the ones of \<^verbatim>\<open>str.isspace\<close> below
  code point 256.
\<close>

definition py_isspace :: "char \<Rightarrow> bool" where
  "py_isspace c \<longleftrightarrow>
     c \<in> set [CHR 0x09, CHR 0x0A, CHR 0x0B, CHR 0x0C, CHR 0x0D, CHR 0x1C, CHR 0x1D,
               CHR 0x1E, CHR 0x1F, CHR 0x20, CHR 0x85, CHR 0xA0]"

definition strip :: "string \<Rightarrow> string" where
  "strip s = rev (dropWhile py_isspace (rev (dropWhile py_isspace s)))"

section \<open>Names imported from the storage library\<close>

text \<open>
  \<^verbatim>\<open>from buku import DELIM, parse_tags\<close>: the module \<^verbatim>\<open>buku\<close> is not part of the
  sources at hand, so both names are parameters of the model. The specification calls
  \<^verbatim>\<open>DELIM\<close> "the single reserved character used to separate multiple tags", hence a
  \<^typ>\<open>char\<close>; \<^verbatim>\<open>parse_tags\<close> takes a list of strings and gives a string.
\<close>

record buku =
  DELIM :: char
  parse_tags :: "string list \<Rightarrow> string"

text \<open>
  \<^verbatim>\<open>from bukuserver.response import Response\<close>: the only member this module uses.
\<close>

datatype Response = INPUT_NOT_VALID

section \<open>The form framework\<close>

text \<open>
  The classes of \<^verbatim>\<open>forms.py\<close> declare fields of the form framework (WTForms through
  Flask-WTF) and call its \<^verbatim>\<open>process\<close> and \<^verbatim>\<open>validate\<close>. This section models the part
  of the framework those declarations use.
\<close>

datatype field_class = StringField | TextAreaField | HiddenField | BooleanField

datatype validator = DataRequired | InputRequired | ValidateTag

text \<open>The only filter declared is \<^verbatim>\<open>filters=[bool]\<close>.\<close>

datatype filter_fn = FilterBool

text \<open>
  A field as a class body declares it. \<^verbatim>\<open>name\<close> is the \<^verbatim>\<open>name=\<close> keyword (the name
  under which submitted form data holds the field), \<^verbatim>\<open>default\<close> the \<^verbatim>\<open>default=\<close>
  keyword (\<^verbatim>\<open>None\<close> when not given). Labels and descriptions are presentation only and
  are left out.
\<close>

record unbound_field =
  field_class :: field_class
  name :: "string option"
  validators :: "validator list"
  filters :: "filter_fn list"
  default :: pyval

definition UnboundField :: "field_class \<Rightarrow> validator list \<Rightarrow> filter_fn list \<Rightarrow> pyval \<Rightarrow> unbound_field" where
  "UnboundField c vs fs d =
     \<lparr>field_class = c, name = None, validators = vs, filters = fs, default = d\<rparr>"

text \<open>
  \<^verbatim>\<open>FieldList(unbound_field, min_entries=n)\<close>: a repeatable field. None of the lists
  declared here has validators of its own, and its default is the empty tuple.
\<close>

datatype declared = Single unbound_field | FieldList unbound_field nat

text \<open>
  A bound field after \<^verbatim>\<open>process\<close>: its declaration, \<^verbatim>\<open>data\<close>, \<^verbatim>\<open>raw_data\<close> (None
  until the field is processed with form data) and \<^verbatim>\<open>process_errors\<close>.
\<close>

record field =
  unbound :: unbound_field
  data :: pyval
  raw_data :: "string list option"
  process_errors :: "string list"

datatype bound = Field field | Entries "field list"

text \<open>
  \<^verbatim>\<open>Field.process_data\<close>: a \<^verbatim>\<open>BooleanField\<close> stores \<^verbatim>\<open>bool(value)\<close>, the string
  fields store the value as it is.
\<close>

definition process_data_field :: "field_class \<Rightarrow> pyval \<Rightarrow> pyval" where
  "process_data_field c v = (if c = BooleanField then PBool (truthy v) else v)"

text \<open>
  \<^verbatim>\<open>Field.process_formdata\<close> on the submitted values of the field: a string field
  takes the first value if there is one; a \<^verbatim>\<open>BooleanField\<close> is False when there is no
  value or the first one is among \<^verbatim>\<open>false_values = (False, "false", "")\<close>.
\<close>

definition process_formdata :: "field_class \<Rightarrow> string list \<Rightarrow> pyval \<Rightarrow> pyval" where
  "process_formdata c valuelist d =
     (if c = BooleanField
      then PBool (\<not> (valuelist = [] \<or> hd valuelist \<in> set [''false'', '''']))
      else if valuelist \<noteq> [] then PStr (hd valuelist) else d)"

fun apply_filter :: "filter_fn \<Rightarrow> pyval \<Rightarrow> pyval" where
  "apply_filter FilterBool v = PBool (truthy v)"

text \<open>
  \<^verbatim>\<open>Field.process(formdata, data)\<close>. The argument \<^verbatim>\<open>v\<close> is None for
  \<^verbatim>\<open>unset_value\<close>, in which case the default is taken (none of the defaults declared is
  callable). \<^verbatim>\<open>formdata\<close> is None when the form is processed from a mapping only, as
  \<^verbatim>\<open>process(data=data)\<close> does; otherwise it maps a field name to the values submitted
  under it. \<^verbatim>\<open>nm\<close> is the name of the field in the form data.
\<close>

definition Field_process ::
  "unbound_field \<Rightarrow> string \<Rightarrow> (string \<rightharpoonup> string list) option \<Rightarrow> pyval option \<Rightarrow> field" where
  "Field_process u nm formdata v =
     (let d0 = (case v of None \<Rightarrow> default u | Some x \<Rightarrow> x);
          d1 = process_data_field (field_class u) d0;
          raw = (case formdata of
                   None \<Rightarrow> None
                 | Some fd \<Rightarrow> Some (case fd nm of None \<Rightarrow> [] | Some vs \<Rightarrow> vs));
          d2 = (case raw of None \<Rightarrow> d1 | Some vs \<Rightarrow> process_formdata (field_class u) vs d1)
      in \<lparr>unbound = u, data = fold apply_filter (filters u) d2, raw_data = raw,
          process_errors = []\<rparr>)"

text \<open>
  \<^verbatim>\<open>FieldList.process(formdata, data)\<close> for \<^verbatim>\<open>formdata = None\<close>: unset or falsy data
  is replaced by the default \<^verbatim>\<open>()\<close>; one entry is added per item of the data, then
  blank entries until there are \<^verbatim>\<open>min_entries\<close>. Iterating a truthy value that is not
  iterable raises TypeError.
\<close>

definition FieldList_process :: "unbound_field \<Rightarrow> nat \<Rightarrow> pyval option \<Rightarrow> exn + field list" where
  "FieldList_process u min_entries v =
     (case (case v of
              None \<Rightarrow> Inr []
            | Some x \<Rightarrow> if \<not> truthy x then Inr [] else py_iter x) of
        Inl e \<Rightarrow> Inl e
      | Inr items \<Rightarrow>
          (let entries = map (\<lambda>obj_data. Field_process u [] None (Some obj_data)) items
           in Inr (entries @
                   replicate (min_entries - length entries) (Field_process u [] None None))))"

subsection \<open>Validators\<close>

text \<open>
  A validator returns, or raises \<^verbatim>\<open>ValidationError\<close> (the message is recorded and the
  chain goes on) or \<^verbatim>\<open>StopValidation\<close> (the chain ends).
\<close>

datatype validation_exn = ValidationError string | StopValidation string

text \<open>
  \<^verbatim>\<open>validate_tag(form, field)\<close>, lines 11 to 15 of \<^verbatim>\<open>forms.py\<close>. The form is not
  used. None is "returned without raising".
\<close>

definition validate_tag :: "buku \<Rightarrow> field \<Rightarrow> validation_exn option" where
  "validate_tag B fld =
     (if \<not> isinstance_str (data fld) then Some (ValidationError ''Tag must be a string.'')
      else if DELIM B \<in> set (case data fld of PStr s \<Rightarrow> s | _ \<Rightarrow> [])
      then Some (ValidationError
                   (''Tag must not contain delimiter '' @ [CHR 0x22, DELIM B, CHR 0x22] @ ''.''))
      else None)"

text \<open>
  \<^verbatim>\<open>DataRequired\<close> passes when \<^verbatim>\<open>field.data\<close> is truthy and, if a string, not blank;
  \<^verbatim>\<open>InputRequired\<close> passes when the field has a first submitted value and it is not
  empty. Both clear the errors collected so far before they raise \<^verbatim>\<open>StopValidation\<close>,
  so a validator call maps the errors so far to the new errors and what was raised.
\<close>

definition DataRequired_call :: "field \<Rightarrow> string list \<Rightarrow> string list \<times> validation_exn option" where
  "DataRequired_call fld errs =
     (if truthy (data fld) \<and>
         (\<not> isinstance_str (data fld) \<or> strip (case data fld of PStr s \<Rightarrow> s | _ \<Rightarrow> []) \<noteq> [])
      then (errs, None)
      else ([], Some (StopValidation ''This field is required.'')))"

definition InputRequired_call :: "field \<Rightarrow> string list \<Rightarrow> string list \<times> validation_exn option" where
  "InputRequired_call fld errs =
     (if (case raw_data fld of None \<Rightarrow> False | Some [] \<Rightarrow> False | Some (x # xs) \<Rightarrow> x \<noteq> [])
      then (errs, None)
      else ([], Some (StopValidation ''This field is required.'')))"

fun call_validator :: "buku \<Rightarrow> validator \<Rightarrow> field \<Rightarrow> string list \<Rightarrow> string list \<times> validation_exn option" where
  "call_validator B DataRequired fld errs = DataRequired_call fld errs"
| "call_validator B InputRequired fld errs = InputRequired_call fld errs"
| "call_validator B ValidateTag fld errs = (errs, validate_tag B fld)"

text \<open>
  \<^verbatim>\<open>Field._run_validation_chain\<close>: the errors after running the validators in order.
\<close>

fun run_validation_chain :: "buku \<Rightarrow> field \<Rightarrow> validator list \<Rightarrow> string list \<Rightarrow> string list" where
  "run_validation_chain B fld [] errs = errs"
| "run_validation_chain B fld (v # vs) errs =
     (case call_validator B v fld errs of
        (errs', None) \<Rightarrow> run_validation_chain B fld vs errs'
      | (errs', Some (ValidationError m)) \<Rightarrow> run_validation_chain B fld vs (errs' @ [m])
      | (errs', Some (StopValidation m)) \<Rightarrow> (if m \<noteq> [] then errs' @ [m] else errs'))"

text \<open>
  \<^verbatim>\<open>Field.validate\<close>: the errors of the field (it is valid when there are none). The
  fields declared here have no \<^verbatim>\<open>pre_validate\<close> or \<^verbatim>\<open>post_validate\<close>.
\<close>

definition Field_validate :: "buku \<Rightarrow> field \<Rightarrow> string list" where
  "Field_validate B fld = run_validation_chain B fld (validators (unbound fld)) (process_errors fld)"

text \<open>
  \<^verbatim>\<open>FieldList.validate\<close>: the error lists of the entries, or no error at all when every
  entry is valid.
\<close>

definition FieldList_validate :: "buku \<Rightarrow> field list \<Rightarrow> string list list" where
  "FieldList_validate B entries =
     (let errs = map (Field_validate B) entries
      in if list_ex (\<lambda>x. x \<noteq> []) errs then errs else [])"

text \<open>The \<^verbatim>\<open>errors\<close> attribute of a bound field after validation, as a Python value.\<close>

fun bound_errors :: "buku \<Rightarrow> bound \<Rightarrow> pyval" where
  "bound_errors B (Field fld) = PList (map PStr (Field_validate B fld))"
| "bound_errors B (Entries es) = PList (map (\<lambda>e. PList (map PStr e)) (FieldList_validate B es))"

section \<open>The form classes\<close>

text \<open>
  A class body is the list of its field declarations in source order. A subclass has the
  fields of its base class, a redeclared name replacing the inherited field; fields are
  ordered by the time of their declaration, so a redeclared field comes after the
  inherited ones.
\<close>

definition inherit :: "(string \<times> declared) list \<Rightarrow> (string \<times> declared) list \<Rightarrow> (string \<times> declared) list" where
  "inherit base body = filter (\<lambda>d. fst d \<notin> set (map fst body)) base @ body"

definition SearchBookmarksForm_fields :: "(string \<times> declared) list" where
  "SearchBookmarksForm_fields =
     [(''keywords'', FieldList (UnboundField StringField [] [] PNone) 1),
      (''all_keywords'', Single (UnboundField BooleanField [] [] (PBool True))),
      (''markers'', Single (UnboundField BooleanField [] [] (PBool True))),
      (''deep'', Single (UnboundField BooleanField [] [] PNone)),
      (''regex'', Single (UnboundField BooleanField [] [] PNone))]"

definition HomeForm_fields :: "(string \<times> declared) list" where
  "HomeForm_fields =
     inherit SearchBookmarksForm_fields
       [(''keyword'', Single (UnboundField StringField [] [] PNone))]"

definition BookmarkForm_fields :: "(string \<times> declared) list" where
  "BookmarkForm_fields =
     [(''url'', Single ((UnboundField StringField [InputRequired] [] PNone)\<lparr>name := Some ''link''\<rparr>)),
      (''title'', Single (UnboundField StringField [] [] PNone)),
      (''tags'', Single (UnboundField StringField [] [] PNone)),
      (''description'', Single (UnboundField TextAreaField [] [] PNone)),
      (''fetch'', Single (UnboundField HiddenField [] [FilterBool] PNone))]"

definition ApiTagForm_fields :: "(string \<times> declared) list" where
  "ApiTagForm_fields =
     [(''tags'', FieldList (UnboundField StringField [DataRequired, ValidateTag] [] PNone) 1)]"

definition ApiBookmarkCreateForm_fields :: "(string \<times> declared) list" where
  "ApiBookmarkCreateForm_fields =
     inherit ApiTagForm_fields
       [(''url'', Single (UnboundField StringField [DataRequired] [] PNone)),
        (''title'', Single (UnboundField StringField [] [] PNone)),
        (''description'', Single (UnboundField StringField [] [] PNone)),
        (''tags'', FieldList (UnboundField StringField [ValidateTag] [] PNone) 0),
        (''fetch'', Single (UnboundField HiddenField [] [FilterBool] (PBool True)))]"

definition ApiBookmarkEditForm_fields :: "(string \<times> declared) list" where
  "ApiBookmarkEditForm_fields =
     inherit ApiBookmarkCreateForm_fields
       [(''url'', Single (UnboundField StringField [] [] PNone))]"

definition ApiBookmarkRangeEditForm_fields :: "(string \<times> declared) list" where
  "ApiBookmarkRangeEditForm_fields =
     inherit ApiBookmarkEditForm_fields
       [(''del_tags'', Single (UnboundField BooleanField [] [] (PBool False)))]"

datatype form_class =
    SearchBookmarksForm
  | HomeForm
  | BookmarkForm
  | ApiTagForm
  | ApiBookmarkCreateForm
  | ApiBookmarkEditForm
  | ApiBookmarkRangeEditForm

fun form_fields :: "form_class \<Rightarrow> (string \<times> declared) list" where
  "form_fields SearchBookmarksForm = SearchBookmarksForm_fields"
| "form_fields HomeForm = HomeForm_fields"
| "form_fields BookmarkForm = BookmarkForm_fields"
| "form_fields ApiTagForm = ApiTagForm_fields"
| "form_fields ApiBookmarkCreateForm = ApiBookmarkCreateForm_fields"
| "form_fields ApiBookmarkEditForm = ApiBookmarkEditForm_fields"
| "form_fields ApiBookmarkRangeEditForm = ApiBookmarkRangeEditForm_fields"

text \<open>The classes that have \<^verbatim>\<open>process_data\<close>: \<^verbatim>\<open>ApiTagForm\<close> and its subclasses.\<close>

fun is_api_form :: "form_class \<Rightarrow> bool" where
  "is_api_form ApiTagForm = True"
| "is_api_form ApiBookmarkCreateForm = True"
| "is_api_form ApiBookmarkEditForm = True"
| "is_api_form ApiBookmarkRangeEditForm = True"
| "is_api_form c = False"

text \<open>The name of a field in submitted form data: the \<^verbatim>\<open>name=\<close> keyword if given.\<close>

definition formdata_name :: "string \<Rightarrow> unbound_field \<Rightarrow> string" where
  "formdata_name attr u = (case name u of None \<Rightarrow> attr | Some n \<Rightarrow> n)"

text \<open>
  \<^verbatim>\<open>process(data=data)\<close>: every field is processed with the entry of the mapping under
  its attribute name, or with \<^verbatim>\<open>unset_value\<close> when the mapping has none.
\<close>

fun process :: "(string \<times> declared) list \<Rightarrow> (string \<rightharpoonup> pyval) \<Rightarrow> exn + (string \<times> bound) list" where
  "process [] kwargs = Inr []"
| "process ((attr, Single u) # ds) kwargs =
     (case process ds kwargs of
        Inl e \<Rightarrow> Inl e
      | Inr bs \<Rightarrow> Inr ((attr, Field (Field_process u (formdata_name attr u) None (kwargs attr))) # bs))"
| "process ((attr, FieldList u n) # ds) kwargs =
     (case FieldList_process u n (kwargs attr) of
        Inl e \<Rightarrow> Inl e
      | Inr es \<Rightarrow> (case process ds kwargs of Inl e \<Rightarrow> Inl e | Inr bs \<Rightarrow> Inr ((attr, Entries es) # bs)))"

text \<open>
  \<^verbatim>\<open>validate()\<close> is true when no field has errors; \<^verbatim>\<open>errors\<close> is the dictionary of the
  fields that have some.
\<close>

definition validate :: "buku \<Rightarrow> (string \<times> bound) list \<Rightarrow> bool" where
  "validate B bs = list_all (\<lambda>b. \<not> truthy (bound_errors B (snd b))) bs"

definition errors :: "buku \<Rightarrow> (string \<times> bound) list \<Rightarrow> pyval" where
  "errors B bs =
     PDict (filter (\<lambda>e. truthy (snd e)) (map (\<lambda>b. (fst b, bound_errors B (snd b))) bs))"

text \<open>
  A form instance: its class, its bound fields (\<^verbatim>\<open>_fields\<close>), and the attributes \<^verbatim>\<open>tags_str\<close> and
  \<^verbatim>\<open>tags_in\<close>, which the class bodies set to None.
\<close>

record form =
  form_class :: form_class
  bound_fields :: "(string \<times> bound) list"
  tags_str :: "string option"
  tags_in :: "string option"

definition new_form :: "form_class \<Rightarrow> form" where
  "new_form c =
     \<lparr>form_class = c,
      bound_fields = (case process (form_fields c) Map.empty of Inl e \<Rightarrow> [] | Inr bs \<Rightarrow> bs),
      tags_str = None, tags_in = None\<rparr>"

section \<open>The tag-processing step\<close>

text \<open>\<^verbatim>\<open>data.get(key)\<close>: the entry under the key, or None when there is none.\<close>

definition dict_get :: "(string \<rightharpoonup> pyval) \<Rightarrow> string \<Rightarrow> pyval" where
  "dict_get dat key = (case dat key of None \<Rightarrow> PNone | Some v \<Rightarrow> v)"

text \<open>
  \<^verbatim>\<open>ApiTagForm.process_data(self, data)\<close>, lines 53 to 64. The result is the exception
  raised, or the returned pair together with the instance as the call leaves it. In the
  pair, \<^verbatim>\<open>None\<close> as a response is \<^term>\<open>None\<close> and \<^verbatim>\<open>None\<close> as a detail is
  \<^term>\<open>PNone\<close>.
\<close>

definition ApiTagForm_process_data ::
  "buku \<Rightarrow> form \<Rightarrow> (string \<rightharpoonup> pyval) \<Rightarrow> exn + ((Response option \<times> pyval) \<times> form)" where
  "ApiTagForm_process_data B self dat =
     (let tags = dict_get dat ''tags'' in
      if truthy tags \<and> \<not> isinstance_list tags
      then Inr ((Some INPUT_NOT_VALID,
                 PDict [(''errors'', PDict [(''tags'', PStr ''List of tags expected.'')])]), self)
      else
        (case process (form_fields (form_class self)) dat of
           Inl e \<Rightarrow> Inl e
         | Inr bs \<Rightarrow>
             (let self1 = self\<lparr>bound_fields := bs\<rparr> in
              if \<not> validate B bs
              then Inr ((Some INPUT_NOT_VALID, PDict [(''errors'', errors B bs)]), self1)
              else if tags = PNone
              then Inr ((None, PNone), self1\<lparr>tags_str := None\<rparr>)
              else
                (case py_join (DELIM B) tags of
                   Inl e \<Rightarrow> Inl e
                 | Inr s \<Rightarrow> Inr ((None, PNone), self1\<lparr>tags_str := Some (parse_tags B [s])\<rparr>)))))"

text \<open>
  \<^verbatim>\<open>self.del_tags.data\<close>: the data of the bound field \<^verbatim>\<open>del_tags\<close>.
\<close>

definition del_tags_data :: "form \<Rightarrow> exn + pyval" where
  "del_tags_data self =
     (case map_of (bound_fields self) ''del_tags'' of
        Some (Field fld) \<Rightarrow> Inr (data fld)
      | _ \<Rightarrow> Inl AttributeError)"

text \<open>\<^verbatim>\<open>ApiBookmarkRangeEditForm.process_data(self, data)\<close>, lines 88 to 95.\<close>

definition ApiBookmarkRangeEditForm_process_data ::
  "buku \<Rightarrow> form \<Rightarrow> (string \<rightharpoonup> pyval) \<Rightarrow> exn + ((Response option \<times> pyval) \<times> form)" where
  "ApiBookmarkRangeEditForm_process_data B self dat =
     (case ApiTagForm_process_data B self dat of
        Inl e \<Rightarrow> Inl e
      | Inr (ret, self1) \<Rightarrow>
          (case tags_str self1 of
             None \<Rightarrow> Inr (ret, self1)
           | Some s \<Rightarrow>
               (case del_tags_data self1 of
                  Inl e \<Rightarrow> Inl e
                | Inr d \<Rightarrow>
                    Inr (ret, self1\<lparr>tags_in := Some ((if truthy d then ''-'' else ''+'') @ s)\<rparr>))))"

text \<open>
  The method a call \<^verbatim>\<open>form.process_data(data)\<close> runs: the override for the range-edit
  class, the one of \<^verbatim>\<open>ApiTagForm\<close> for the other API classes; the remaining classes have
  no such attribute.
\<close>

definition process_data :: "buku \<Rightarrow> form \<Rightarrow> (string \<rightharpoonup> pyval) \<Rightarrow> exn + ((Response option \<times> pyval) \<times> form)" where
  "process_data B self dat =
     (if form_class self = ApiBookmarkRangeEditForm then ApiBookmarkRangeEditForm_process_data B self dat
      else if is_api_form (form_class self) then ApiTagForm_process_data B self dat
      else Inl AttributeError)"

section \<open>Auxiliary notions for the proofs\<close>

text \<open>
  The guard of line 56 lets a \<^verbatim>\<open>tags\<close> entry through when there is none, when its value
  is falsy, or when it is a list. \<^term>\<open>tag_items\<close> are the items such an entry gives to the
  field list: those of a list, none otherwise.
\<close>

definition passes_guard :: "pyval option \<Rightarrow> bool" where
  "passes_guard t \<longleftrightarrow> (case t of None \<Rightarrow> True | Some v \<Rightarrow> \<not> truthy v \<or> isinstance_list v)"

fun tag_items :: "pyval option \<Rightarrow> pyval list" where
  "tag_items (Some (PList xs)) = xs"
| "tag_items t = []"

text \<open>
  What \<^verbatim>\<open>DataRequired\<close> asks of the \<^verbatim>\<open>url\<close> entry of a mapping: a truthy value that, if
  it is a string, is not blank.
\<close>

definition url_given :: "(string \<rightharpoonup> pyval) \<Rightarrow> bool" where
  "url_given dat \<longleftrightarrow>
     (case dat ''url'' of
        None \<Rightarrow> False
      | Some (PStr s) \<Rightarrow> s \<noteq> [] \<and> strip s \<noteq> []
      | Some v \<Rightarrow> truthy v)"

text \<open>\<^verbatim>\<open>form.<attr>.data\<close> of a plain bound field.\<close>

definition field_data :: "(string \<times> bound) list \<Rightarrow> string \<Rightarrow> pyval option" where
  "field_data bs attr = (case map_of bs attr of Some (Field fld) \<Rightarrow> Some (data fld) | _ \<Rightarrow> None)"

lemmas search_defs = SearchBookmarksForm_fields_def HomeForm_fields_def BookmarkForm_fields_def

lemmas class_defs =
  ApiTagForm_fields_def ApiBookmarkCreateForm_fields_def ApiBookmarkEditForm_fields_def
  ApiBookmarkRangeEditForm_fields_def inherit_def UnboundField_def

lemmas eval_defs =
  process_data_def ApiTagForm_process_data_def ApiBookmarkRangeEditForm_process_data_def
  new_form_def dict_get_def class_defs FieldList_process_def validate_def errors_def
  FieldList_validate_def Field_validate_def Field_process_def process_data_field_def
  formdata_name_def py_join_def DataRequired_call_def validate_tag_def del_tags_data_def Let_def

lemma passes_guard_dict_get:
  "(truthy (dict_get dat ''tags'') \<and> \<not> isinstance_list (dict_get dat ''tags'')) =
     (\<not> passes_guard (dat ''tags''))"
  by (simp add: passes_guard_def dict_get_def split: option.splits)

lemma FieldList_process_guarded:
  assumes "passes_guard t"
  shows "FieldList_process u n t =
     Inr (map (\<lambda>v. Field_process u [] None (Some v)) (tag_items t) @
          replicate (n - length (tag_items t)) (Field_process u [] None None))"
proof (cases t)
  case None
  then show ?thesis by (simp add: FieldList_process_def)
next
  case (Some v)
  with assms show ?thesis
    by (cases v; cases "tag_items t") (simp_all add: FieldList_process_def passes_guard_def)
qed

lemma process_api_total:
  assumes "passes_guard (dat ''tags'')" and "is_api_form c"
  shows "\<exists>bs. process (form_fields c) dat = Inr bs"
  using assms(2) by (cases c) (simp_all add: class_defs FieldList_process_guarded [OF assms(1)])

lemma new_form_attrs [simp]:
  "form_class (new_form c) = c" "tags_str (new_form c) = None" "tags_in (new_form c) = None"
  by (simp_all add: new_form_def)

section \<open>The tag validator\<close>

text \<open>
  Claim C5. For every value supplied to the tag validator \<^verbatim>\<open>validate_tag\<close>, the validator
  raises a validation error if and only if the value is not a string or it contains the
  reserved delimiter character; it returns without raising exactly on the strings that are
  free of the delimiter.
\<close>

theorem validate_tag_raises_iff:
  "((\<exists>m. validate_tag B fld = Some (ValidationError m)) \<longleftrightarrow>
      (\<not> isinstance_str (data fld) \<or> (\<exists>s. data fld = PStr s \<and> DELIM B \<in> set s)))
   \<and> (validate_tag B fld = None \<longleftrightarrow> (\<exists>s. data fld = PStr s \<and> DELIM B \<notin> set s))"
  by (cases "data fld") (auto simp: validate_tag_def)

text \<open>
  The theorem at three fields: a tag holding the delimiter, a tag that is an integer, and
  a tag free of the delimiter.
\<close>

theorem validate_tag_raises_iff_witness:
  "(\<exists>m. validate_tag \<lparr>DELIM = CHR '','', parse_tags = concat\<rparr>
          \<lparr>unbound = UnboundField StringField [ValidateTag] [] PNone, data = PStr ''a,b'',
           raw_data = None, process_errors = []\<rparr> = Some (ValidationError m))
   \<and> (\<exists>m. validate_tag \<lparr>DELIM = CHR '','', parse_tags = concat\<rparr>
          \<lparr>unbound = UnboundField StringField [ValidateTag] [] PNone, data = PInt 7,
           raw_data = None, process_errors = []\<rparr> = Some (ValidationError m))
   \<and> validate_tag \<lparr>DELIM = CHR '','', parse_tags = concat\<rparr>
          \<lparr>unbound = UnboundField StringField [ValidateTag] [] PNone, data = PStr ''ab'',
           raw_data = None, process_errors = []\<rparr> = None"
  using validate_tag_raises_iff [of "\<lparr>DELIM = CHR '','', parse_tags = concat\<rparr>"
          "\<lparr>unbound = UnboundField StringField [ValidateTag] [] PNone, data = PStr ''a,b'',
           raw_data = None, process_errors = []\<rparr>"]
        validate_tag_raises_iff [of "\<lparr>DELIM = CHR '','', parse_tags = concat\<rparr>"
          "\<lparr>unbound = UnboundField StringField [ValidateTag] [] PNone, data = PInt 7,
           raw_data = None, process_errors = []\<rparr>"]
        validate_tag_raises_iff [of "\<lparr>DELIM = CHR '','', parse_tags = concat\<rparr>"
          "\<lparr>unbound = UnboundField StringField [ValidateTag] [] PNone, data = PStr ''ab'',
           raw_data = None, process_errors = []\<rparr>"]
  by simp

section \<open>The type check on \<^verbatim>\<open>tags\<close>\<close>

text \<open>
  Claim C1, as amended. The guard of line 56 is \<^verbatim>\<open>if tags and not isinstance(tags, list)\<close>:
  for every input mapping whose \<^verbatim>\<open>tags\<close> entry is a truthy value that is not a list (a
  non-empty string, a non-zero integer, True, a non-empty dictionary), the step returns the
  type-mismatch error \<^verbatim>\<open>INPUT_NOT_VALID\<close> with the field-level message "List of tags
  expected.", whatever the other entries are, and leaves the instance as it was. The
  instance is one whose \<^verbatim>\<open>tags_str\<close> is still None, as the class body sets it.
\<close>

theorem truthy_non_list_tags_rejected:
  assumes "dat ''tags'' = Some v" and "truthy v" and "\<not> isinstance_list v"
    and "is_api_form (form_class self)" and "tags_str self = None"
  shows "process_data B self dat =
           Inr ((Some INPUT_NOT_VALID,
                 PDict [(''errors'', PDict [(''tags'', PStr ''List of tags expected.'')])]), self)"
  using assms
  by (simp add: process_data_def ApiBookmarkRangeEditForm_process_data_def
      ApiTagForm_process_data_def dict_get_def)

theorem truthy_non_list_tags_rejected_witness:
  "process_data \<lparr>DELIM = CHR '','', parse_tags = concat\<rparr> (new_form ApiBookmarkCreateForm)
       [''tags'' \<mapsto> PStr ''a,b'', ''url'' \<mapsto> PStr ''http://example.org''] =
     Inr ((Some INPUT_NOT_VALID,
           PDict [(''errors'', PDict [(''tags'', PStr ''List of tags expected.'')])]),
          new_form ApiBookmarkCreateForm)"
  using truthy_non_list_tags_rejected [of "[''tags'' \<mapsto> PStr ''a,b'', ''url'' \<mapsto> PStr ''http://example.org'']"
      "PStr ''a,b''" "new_form ApiBookmarkCreateForm" "\<lparr>DELIM = CHR '','', parse_tags = concat\<rparr>"]
  by simp

text \<open>
  The claim as stated fails on a falsy value that is not a list: with \<^verbatim>\<open>tags\<close> the empty
  string, the edit form returns \<^verbatim>\<open>(None, None)\<close>, not the type-mismatch error.
\<close>

theorem empty_string_tags_accepted:
  "map_sum id fst (process_data \<lparr>DELIM = CHR '','', parse_tags = concat\<rparr>
       (new_form ApiBookmarkEditForm) [''tags'' \<mapsto> PStr '''']) = Inr (None, PNone)"
  by (simp add: eval_defs)

section \<open>The returned pair\<close>

text \<open>
  Claim C6 says that the step returns, for every input mapping, either an error pair or
  \<^verbatim>\<open>(None, None)\<close>. With \<^verbatim>\<open>tags\<close> the integer 0 the guard of line 56 is passed (0 is
  falsy), the edit form validates, and \<^verbatim>\<open>DELIM.join(tags)\<close> on line 63 raises TypeError:
  the step returns no pair at all.
\<close>

theorem falsy_int_tags_raise:
  "process_data B (new_form ApiBookmarkEditForm) [''tags'' \<mapsto> PInt 0] = Inl TypeError"
  by (simp add: eval_defs)

text \<open>The same with False on the create form, given a url.\<close>

lemma falsy_bool_tags_raise:
  "process_data B (new_form ApiBookmarkCreateForm)
     [''tags'' \<mapsto> PBool False, ''url'' \<mapsto> PStr ''http://example.org''] = Inl TypeError"
  by (simp add: eval_defs strip_def py_isspace_def)

text \<open>
  Whenever the step does return, the pair is \<^verbatim>\<open>(None, None)\<close> or
  \<^verbatim>\<open>(INPUT_NOT_VALID, {'errors': ...})\<close>.
\<close>

theorem returned_pair_shape:
  "process_data B self dat = Inr (ret, self') \<Longrightarrow>
     ret = (None, PNone) \<or> (\<exists>d. ret = (Some INPUT_NOT_VALID, PDict [(''errors'', d)]) \<and> d \<noteq> PNone)"
  by (auto simp: process_data_def ApiBookmarkRangeEditForm_process_data_def
      ApiTagForm_process_data_def Let_def errors_def
      split: if_splits sum.splits option.splits prod.splits)

section \<open>The range-edit step\<close>

text \<open>
  Claim C10. For every input on which the base tag-processing step fails (returns an
  error), the range-edit step returns the base step's error pair unchanged and leaves both
  \<^verbatim>\<open>tags_str\<close> and \<^verbatim>\<open>tags_in\<close> equal to None: the prefixing does not run. The instance is
  one whose \<^verbatim>\<open>tags_str\<close> and \<^verbatim>\<open>tags_in\<close> are None before the call, as the class bodies
  (lines 51 and 86) set them.
\<close>

theorem range_edit_keeps_error:
  assumes "form_class self = ApiBookmarkRangeEditForm" and "tags_str self = None" and "tags_in self = None"
    and "ApiTagForm_process_data B self dat = Inr ((Some r, d), self1)"
  shows "process_data B self dat = Inr ((Some r, d), self1) \<and> tags_str self1 = None \<and> tags_in self1 = None"
  using assms
  by (auto simp: process_data_def ApiBookmarkRangeEditForm_process_data_def
      ApiTagForm_process_data_def Let_def
      split: if_splits sum.splits option.splits)

theorem range_edit_keeps_error_witness:
  "\<exists>self1. process_data \<lparr>DELIM = CHR '','', parse_tags = concat\<rparr> (new_form ApiBookmarkRangeEditForm)
       [''tags'' \<mapsto> PList [PStr ''a,b'']] =
     Inr ((Some INPUT_NOT_VALID,
           PDict [(''errors'', PDict [(''tags'',
              PList [PList [PStr (''Tag must not contain delimiter '' @ [CHR 0x22, CHR '','', CHR 0x22] @ ''.'')]])])]), self1)
     \<and> tags_str self1 = None \<and> tags_in self1 = None"
proof -
  let ?B = "\<lparr>DELIM = CHR '','', parse_tags = concat\<rparr>"
  let ?dat = "[''tags'' \<mapsto> PList [PStr ''a,b'']]"
  have "\<exists>self1. ApiTagForm_process_data ?B (new_form ApiBookmarkRangeEditForm) ?dat =
     Inr ((Some INPUT_NOT_VALID,
           PDict [(''errors'', PDict [(''tags'',
              PList [PList [PStr (''Tag must not contain delimiter '' @ [CHR 0x22, CHR '','', CHR 0x22] @ ''.'')]])])]), self1)"
    by (simp add: eval_defs)
  then obtain self1 where base: "ApiTagForm_process_data ?B (new_form ApiBookmarkRangeEditForm) ?dat =
     Inr ((Some INPUT_NOT_VALID,
           PDict [(''errors'', PDict [(''tags'',
              PList [PList [PStr (''Tag must not contain delimiter '' @ [CHR 0x22, CHR '','', CHR 0x22] @ ''.'')]])])]), self1)"
    by blast
  from range_edit_keeps_error [OF _ _ _ base] show ?thesis by simp
qed

lemma process_range_del_tags:
  assumes "process ApiBookmarkRangeEditForm_fields dat = Inr bs"
  shows "map_of bs ''del_tags'' =
     Some (Field (Field_process (UnboundField BooleanField [] [] (PBool False)) ''del_tags'' None (dat ''del_tags'')))"
  using assms by (auto simp: class_defs formdata_name_def split: sum.splits)

text \<open>
  Claim C4. For every input on which the base tag-processing step succeeds and produces a
  normalized tag string \<open>s\<close>, the range-edit step sets \<^verbatim>\<open>tags_in\<close> to \<open>s\<close> prefixed with
  "-" when the delete-tags flag is true and with "+" when it is false, and returns success.
  The flag is \<^verbatim>\<open>self.del_tags.data\<close>, the truth value of the \<^verbatim>\<open>del_tags\<close> entry of the
  mapping (False when there is none).
\<close>

theorem range_edit_prefix:
  assumes "form_class self = ApiBookmarkRangeEditForm"
    and "ApiTagForm_process_data B self dat = Inr ((None, PNone), self1)"
    and "tags_str self1 = Some s"
  shows "del_tags_data self1 = Inr (PBool (truthy (dict_get dat ''del_tags''))) \<and>
         process_data B self dat =
           Inr ((None, PNone),
                self1\<lparr>tags_in := Some ((if truthy (dict_get dat ''del_tags'') then ''-'' else ''+'') @ s)\<rparr>)"
proof -
  from assms(2) obtain bs where bs: "process ApiBookmarkRangeEditForm_fields dat = Inr bs"
    and f: "bound_fields self1 = bs"
    using assms(1)
    by (auto simp: ApiTagForm_process_data_def Let_def split: if_splits sum.splits)
  have d: "del_tags_data self1 = Inr (PBool (truthy (dict_get dat ''del_tags'')))"
    using process_range_del_tags [OF bs] f
    by (simp add: del_tags_data_def Field_process_def UnboundField_def process_data_field_def dict_get_def
        split: option.splits)
  show ?thesis
    using d assms by (simp add: process_data_def ApiBookmarkRangeEditForm_process_data_def)
qed

text \<open>
  The tags \<^verbatim>\<open>["a", "b"]\<close> with a \<^verbatim>\<open>parse_tags\<close> that gives the normalized string "a,b":
  the instruction is "-a,b" with \<^verbatim>\<open>del_tags\<close> true and "+a,b" with \<^verbatim>\<open>del_tags\<close> false.
\<close>

theorem range_edit_prefix_witness:
  "(\<exists>self2. process_data \<lparr>DELIM = CHR '','', parse_tags = concat\<rparr> (new_form ApiBookmarkRangeEditForm)
        [''tags'' \<mapsto> PList [PStr ''a'', PStr ''b''], ''del_tags'' \<mapsto> PBool True] = Inr ((None, PNone), self2)
      \<and> tags_str self2 = Some ''a,b'' \<and> tags_in self2 = Some ''-a,b'')
   \<and> (\<exists>self2. process_data \<lparr>DELIM = CHR '','', parse_tags = concat\<rparr> (new_form ApiBookmarkRangeEditForm)
        [''tags'' \<mapsto> PList [PStr ''a'', PStr ''b''], ''del_tags'' \<mapsto> PBool False] = Inr ((None, PNone), self2)
      \<and> tags_str self2 = Some ''a,b'' \<and> tags_in self2 = Some ''+a,b'')"
proof -
  let ?B = "\<lparr>DELIM = CHR '','', parse_tags = concat\<rparr>"
  let ?f = "new_form ApiBookmarkRangeEditForm"
  let ?d1 = "[''tags'' \<mapsto> PList [PStr ''a'', PStr ''b''], ''del_tags'' \<mapsto> PBool True]"
  let ?d2 = "[''tags'' \<mapsto> PList [PStr ''a'', PStr ''b''], ''del_tags'' \<mapsto> PBool False]"
  have "\<exists>self1. ApiTagForm_process_data ?B ?f ?d1 = Inr ((None, PNone), self1) \<and> tags_str self1 = Some ''a,b''"
    by (simp add: eval_defs)
  then obtain s1 where b1: "ApiTagForm_process_data ?B ?f ?d1 = Inr ((None, PNone), s1)"
    and t1: "tags_str s1 = Some ''a,b''" by blast
  have "\<exists>self1. ApiTagForm_process_data ?B ?f ?d2 = Inr ((None, PNone), self1) \<and> tags_str self1 = Some ''a,b''"
    by (simp add: eval_defs)
  then obtain s2 where b2: "ApiTagForm_process_data ?B ?f ?d2 = Inr ((None, PNone), s2)"
    and t2: "tags_str s2 = Some ''a,b''" by blast
  from range_edit_prefix [OF _ b1 t1] range_edit_prefix [OF _ b2 t2] t1 t2
  show ?thesis by (simp add: dict_get_def)
qed

section \<open>An omitted \<^verbatim>\<open>tags\<close> entry and an empty tag list\<close>

text \<open>
  Claim C3, as amended. For every input mapping with no \<^verbatim>\<open>tags\<close> entry, the step on a
  new instance returns without raising and leaves \<^verbatim>\<open>tags_str\<close> (and \<^verbatim>\<open>tags_in\<close>) None.
  It returns success on \<^verbatim>\<open>ApiBookmarkEditForm\<close> and \<^verbatim>\<open>ApiBookmarkRangeEditForm\<close>, and on
  \<^verbatim>\<open>ApiBookmarkCreateForm\<close> when the mapping gives a url; on \<^verbatim>\<open>ApiBookmarkCreateForm\<close>
  without a url it returns the field-validation error of the url, and on \<^verbatim>\<open>ApiTagForm\<close>
  itself (\<^verbatim>\<open>min_entries=1\<close> with \<^verbatim>\<open>DataRequired\<close>) the field-validation error of the
  one blank tag entry.
\<close>

theorem tags_omitted:
  assumes "dat ''tags'' = None" and "is_api_form c"
  shows "\<exists>ret self'. process_data B (new_form c) dat = Inr (ret, self') \<and>
           tags_str self' = None \<and> tags_in self' = None \<and>
           ret = (if c = ApiTagForm
                  then (Some INPUT_NOT_VALID,
                        PDict [(''errors'', PDict [(''tags'', PList [PList [PStr ''This field is required.'']])])])
                  else if c = ApiBookmarkCreateForm \<and> \<not> url_given dat
                  then (Some INPUT_NOT_VALID,
                        PDict [(''errors'', PDict [(''url'', PList [PStr ''This field is required.''])])])
                  else (None, PNone))"
proof (cases c)
  case ApiTagForm
  with assms show ?thesis by (simp add: eval_defs)
next
  case ApiBookmarkCreateForm
  with assms show ?thesis
    by (cases "dat ''url''") (auto simp: eval_defs url_given_def split: pyval.splits)
next
  case ApiBookmarkEditForm
  with assms show ?thesis by (simp add: eval_defs)
next
  case ApiBookmarkRangeEditForm
  with assms show ?thesis by (simp add: eval_defs)
qed (use assms in simp_all)

theorem tags_omitted_witness:
  "\<exists>self'. process_data \<lparr>DELIM = CHR '','', parse_tags = concat\<rparr> (new_form ApiBookmarkEditForm)
       [''title'' \<mapsto> PStr ''Example''] = Inr ((None, PNone), self')
     \<and> tags_str self' = None \<and> tags_in self' = None"
  using tags_omitted [of "[''title'' \<mapsto> PStr ''Example'']" ApiBookmarkEditForm
      "\<lparr>DELIM = CHR '','', parse_tags = concat\<rparr>"]
  by simp

text \<open>
  The claim as stated fails on the create form: a mapping with neither \<^verbatim>\<open>tags\<close> nor
  \<^verbatim>\<open>url\<close> gets the field-validation error of the url.
\<close>

theorem tags_omitted_create_without_url:
  "map_sum id fst (process_data \<lparr>DELIM = CHR '','', parse_tags = concat\<rparr>
       (new_form ApiBookmarkCreateForm) [''title'' \<mapsto> PStr ''Example'']) =
     Inr (Some INPUT_NOT_VALID,
          PDict [(''errors'', PDict [(''url'', PList [PStr ''This field is required.''])])])"
  by (simp add: eval_defs)

text \<open>
  Claim C9, as amended. For every input mapping whose \<^verbatim>\<open>tags\<close> entry is the empty list,
  the step on a new create, edit or range-edit form returns without raising and never
  returns the type-mismatch error. On the edit and range-edit forms, and on the create form
  when the mapping gives a url, it returns success and \<^verbatim>\<open>tags_str\<close> is
  \<^verbatim>\<open>parse_tags([""])\<close>, not None: an empty list is not treated as an omitted entry. On the
  create form without a url it returns the field-validation error of the url and
  \<^verbatim>\<open>tags_str\<close> stays None.
\<close>

theorem empty_tag_list:
  assumes "dat ''tags'' = Some (PList [])"
    and "c = ApiBookmarkCreateForm \<or> c = ApiBookmarkEditForm \<or> c = ApiBookmarkRangeEditForm"
  shows "\<exists>ret self'. process_data B (new_form c) dat = Inr (ret, self') \<and>
           (if c = ApiBookmarkCreateForm \<and> \<not> url_given dat
            then ret = (Some INPUT_NOT_VALID,
                        PDict [(''errors'', PDict [(''url'', PList [PStr ''This field is required.''])])])
                 \<and> tags_str self' = None
            else ret = (None, PNone) \<and> tags_str self' = Some (parse_tags B [[]]))"
  using assms(2)
proof (elim disjE)
  assume "c = ApiBookmarkCreateForm"
  with assms(1) show ?thesis
    by (cases "dat ''url''") (auto simp: eval_defs url_given_def split: pyval.splits)
next
  assume "c = ApiBookmarkEditForm"
  with assms(1) show ?thesis by (simp add: eval_defs)
next
  assume "c = ApiBookmarkRangeEditForm"
  with assms(1) show ?thesis by (simp add: eval_defs)
qed

theorem empty_tag_list_witness:
  "\<exists>self'. process_data \<lparr>DELIM = CHR '','', parse_tags = concat\<rparr> (new_form ApiBookmarkCreateForm)
       [''tags'' \<mapsto> PList [], ''url'' \<mapsto> PStr ''http://example.org''] = Inr ((None, PNone), self')
     \<and> tags_str self' = Some (concat [[]])"
  using empty_tag_list [of "[''tags'' \<mapsto> PList [], ''url'' \<mapsto> PStr ''http://example.org'']"
      ApiBookmarkCreateForm "\<lparr>DELIM = CHR '','', parse_tags = concat\<rparr>"]
  by (simp add: url_given_def strip_def py_isspace_def)

text \<open>
  The claim as stated fails on the create form: with \<^verbatim>\<open>tags\<close> the empty list and no url,
  validation fails and \<^verbatim>\<open>tags_str\<close> is None.
\<close>

theorem empty_tag_list_create_without_url:
  "map_sum id (map_prod id tags_str) (process_data \<lparr>DELIM = CHR '','', parse_tags = concat\<rparr>
       (new_form ApiBookmarkCreateForm) [''tags'' \<mapsto> PList []]) =
     Inr ((Some INPUT_NOT_VALID,
           PDict [(''errors'', PDict [(''url'', PList [PStr ''This field is required.''])])]), None)"
  by (simp add: eval_defs)

section \<open>The url field\<close>

text \<open>
  Claim C7. The url field is required on the bookmark create forms: \<^verbatim>\<open>BookmarkForm\<close>
  declares it with \<^verbatim>\<open>InputRequired\<close> (under the form-data name \<^verbatim>\<open>link\<close>), so its
  validation fails when the submitted data has no value or an empty first value for it;
  \<^verbatim>\<open>ApiBookmarkCreateForm\<close> declares it with \<^verbatim>\<open>DataRequired\<close>, so its validation, and with
  it the validation of the form, fails when the mapping gives no url (none, None, an empty
  or blank string, or another falsy value). \<^verbatim>\<open>ApiBookmarkEditForm\<close> declares it with no
  validator, so its validation never fails, and every other field of the edit form is the
  one of the create form.
\<close>

theorem url_required_on_create_optional_on_edit:
  "map_of (form_fields BookmarkForm) ''url'' =
     Some (Single ((UnboundField StringField [InputRequired] [] PNone)\<lparr>name := Some ''link''\<rparr>))
   \<and> (\<forall>fd v. (case fd ''link'' of None \<Rightarrow> True | Some xs \<Rightarrow> xs = [] \<or> hd xs = []) \<longrightarrow>
         Field_validate B
           (Field_process ((UnboundField StringField [InputRequired] [] PNone)\<lparr>name := Some ''link''\<rparr>)
              (formdata_name ''url'' ((UnboundField StringField [InputRequired] [] PNone)\<lparr>name := Some ''link''\<rparr>))
              (Some fd) v) = [''This field is required.''])
   \<and> map_of (form_fields ApiBookmarkCreateForm) ''url'' =
     Some (Single (UnboundField StringField [DataRequired] [] PNone))
   \<and> (\<forall>dat. \<not> url_given dat \<longrightarrow>
         Field_validate B
           (Field_process (UnboundField StringField [DataRequired] [] PNone) ''url'' None (dat ''url'')) =
           [''This field is required.'']
         \<and> (\<forall>bs. process (form_fields ApiBookmarkCreateForm) dat = Inr bs \<longrightarrow> \<not> validate B bs))
   \<and> map_of (form_fields ApiBookmarkEditForm) ''url'' =
     Some (Single (UnboundField StringField [] [] PNone))
   \<and> (\<forall>v. Field_validate B (Field_process (UnboundField StringField [] [] PNone) ''url'' None v) = [])
   \<and> (\<forall>attr. attr \<noteq> ''url'' \<longrightarrow>
         map_of (form_fields ApiBookmarkEditForm) attr = map_of (form_fields ApiBookmarkCreateForm) attr)
   \<and> map fst (form_fields ApiBookmarkEditForm) = [''title'', ''description'', ''tags'', ''fetch'', ''url'']
   \<and> map fst (form_fields ApiBookmarkCreateForm) = [''url'', ''title'', ''description'', ''tags'', ''fetch'']"
proof (intro conjI allI impI)
  show "map_of (form_fields BookmarkForm) ''url'' =
     Some (Single ((UnboundField StringField [InputRequired] [] PNone)\<lparr>name := Some ''link''\<rparr>))"
    by (simp add: search_defs)
next
  fix fd :: "string \<rightharpoonup> string list" and v
  assume "case fd ''link'' of None \<Rightarrow> True | Some xs \<Rightarrow> xs = [] \<or> hd xs = []"
  then show "Field_validate B
           (Field_process ((UnboundField StringField [InputRequired] [] PNone)\<lparr>name := Some ''link''\<rparr>)
              (formdata_name ''url'' ((UnboundField StringField [InputRequired] [] PNone)\<lparr>name := Some ''link''\<rparr>))
              (Some fd) v) = [''This field is required.'']"
    by (auto simp: Field_validate_def Field_process_def UnboundField_def formdata_name_def
        InputRequired_call_def Let_def split: option.splits list.splits)
next
  show "map_of (form_fields ApiBookmarkCreateForm) ''url'' =
     Some (Single (UnboundField StringField [DataRequired] [] PNone))"
    by (simp add: class_defs)
next
  fix dat assume n: "\<not> url_given dat"
  then show f: "Field_validate B
           (Field_process (UnboundField StringField [DataRequired] [] PNone) ''url'' None (dat ''url'')) =
           [''This field is required.'']"
    by (auto simp: Field_validate_def Field_process_def UnboundField_def DataRequired_call_def
        process_data_field_def url_given_def Let_def split: option.splits pyval.splits)
  fix bs assume "process (form_fields ApiBookmarkCreateForm) dat = Inr bs"
  then show "\<not> validate B bs"
    using f by (auto simp: class_defs validate_def formdata_name_def split: sum.splits)
next
  show "map_of (form_fields ApiBookmarkEditForm) ''url'' =
     Some (Single (UnboundField StringField [] [] PNone))"
    by (simp add: class_defs)
next
  fix v show "Field_validate B (Field_process (UnboundField StringField [] [] PNone) ''url'' None v) = []"
    by (simp add: Field_validate_def Field_process_def UnboundField_def Let_def)
next
  fix attr :: string assume "attr \<noteq> ''url''"
  then show "map_of (form_fields ApiBookmarkEditForm) attr = map_of (form_fields ApiBookmarkCreateForm) attr"
    by (simp add: class_defs)
next
  show "map fst (form_fields ApiBookmarkEditForm) = [''title'', ''description'', ''tags'', ''fetch'', ''url'']"
    by (simp add: class_defs)
next
  show "map fst (form_fields ApiBookmarkCreateForm) = [''url'', ''title'', ''description'', ''tags'', ''fetch'']"
    by (simp add: class_defs)
qed

text \<open>
  The theorem at a submitted form whose \<^verbatim>\<open>link\<close> is empty, at a mapping without url, and
  at the \<^verbatim>\<open>tags\<close> field of the edit form.
\<close>

theorem url_required_on_create_optional_on_edit_witness:
  "Field_validate \<lparr>DELIM = CHR '','', parse_tags = concat\<rparr>
     (Field_process ((UnboundField StringField [InputRequired] [] PNone)\<lparr>name := Some ''link''\<rparr>)
        ''link'' (Some [''link'' \<mapsto> ['''']]) None) = [''This field is required.'']
   \<and> Field_validate \<lparr>DELIM = CHR '','', parse_tags = concat\<rparr>
       (Field_process (UnboundField StringField [DataRequired] [] PNone) ''url'' None
          ([''title'' \<mapsto> PStr ''Example''] ''url'')) = [''This field is required.'']
   \<and> map_of (form_fields ApiBookmarkEditForm) ''tags'' = map_of (form_fields ApiBookmarkCreateForm) ''tags''"
proof -
  let ?B = "\<lparr>DELIM = CHR '','', parse_tags = concat\<rparr>"
  note t = url_required_on_create_optional_on_edit [of ?B]
  note a = t [THEN conjunct2, THEN conjunct1, rule_format, of "[''link'' \<mapsto> ['''']]" None]
  note b = t [THEN conjunct2, THEN conjunct2, THEN conjunct2, THEN conjunct1, rule_format,
      of "[''title'' \<mapsto> PStr ''Example'']", THEN conjunct1]
  note c = t [THEN conjunct2, THEN conjunct2, THEN conjunct2, THEN conjunct2, THEN conjunct2,
      THEN conjunct2, THEN conjunct1, rule_format, of "''tags''"]
  have 1: "Field_validate ?B
     (Field_process ((UnboundField StringField [InputRequired] [] PNone)\<lparr>name := Some ''link''\<rparr>)
        ''link'' (Some [''link'' \<mapsto> ['''']]) None) = [''This field is required.'']"
    using a by (simp add: formdata_name_def UnboundField_def)
  have 2: "Field_validate ?B
       (Field_process (UnboundField StringField [DataRequired] [] PNone) ''url'' None
          ([''title'' \<mapsto> PStr ''Example''] ''url'')) = [''This field is required.'']"
    using b by (simp add: url_given_def)
  have 3: "map_of (form_fields ApiBookmarkEditForm) ''tags'' = map_of (form_fields ApiBookmarkCreateForm) ''tags''"
    using c by simp
  from 1 2 3 show ?thesis by (intro conjI)
qed

section \<open>The search form\<close>

lemma FieldList_process_min_entries:
  "FieldList_process u n v = Inr es \<Longrightarrow> n \<le> length es"
  by (auto simp: FieldList_process_def Let_def split: sum.splits option.splits if_splits)

text \<open>
  Claim C8. The search form declares \<^verbatim>\<open>keywords\<close> as a repeatable field with
  \<^verbatim>\<open>min_entries=1\<close>, so that processing always gives it at least one entry, and its
  toggles are declared with \<^verbatim>\<open>default=True\<close> for \<^verbatim>\<open>all_keywords\<close> and \<^verbatim>\<open>markers\<close> and
  with no default for \<^verbatim>\<open>deep\<close> and \<^verbatim>\<open>regex\<close>. When the form is processed without a value
  for a toggle, the data of the toggle is: \<^verbatim>\<open>all_keywords\<close> True, \<^verbatim>\<open>markers\<close> True,
  \<^verbatim>\<open>deep\<close> False, \<^verbatim>\<open>regex\<close> False. "No value is submitted" is read as: the form is not
  processed from submitted form data, which is when the framework applies defaults.
\<close>

theorem search_form_defaults:
  "map_of (form_fields SearchBookmarksForm) ''keywords'' =
     Some (FieldList (UnboundField StringField [] [] PNone) 1)
   \<and> (\<forall>v es. FieldList_process (UnboundField StringField [] [] PNone) 1 v = Inr es \<longrightarrow> 1 \<le> length es)
   \<and> map_of (form_fields SearchBookmarksForm) ''all_keywords'' =
       Some (Single (UnboundField BooleanField [] [] (PBool True)))
   \<and> map_of (form_fields SearchBookmarksForm) ''markers'' =
       Some (Single (UnboundField BooleanField [] [] (PBool True)))
   \<and> map_of (form_fields SearchBookmarksForm) ''deep'' =
       Some (Single (UnboundField BooleanField [] [] PNone))
   \<and> map_of (form_fields SearchBookmarksForm) ''regex'' =
       Some (Single (UnboundField BooleanField [] [] PNone))
   \<and> (\<forall>dat bs. process (form_fields SearchBookmarksForm) dat = Inr bs \<longrightarrow>
         (dat ''all_keywords'' = None \<longrightarrow> field_data bs ''all_keywords'' = Some (PBool True)) \<and>
         (dat ''markers'' = None \<longrightarrow> field_data bs ''markers'' = Some (PBool True)) \<and>
         (dat ''deep'' = None \<longrightarrow> field_data bs ''deep'' = Some (PBool False)) \<and>
         (dat ''regex'' = None \<longrightarrow> field_data bs ''regex'' = Some (PBool False)))
   \<and> field_data (bound_fields (new_form SearchBookmarksForm)) ''all_keywords'' = Some (PBool True)
   \<and> field_data (bound_fields (new_form SearchBookmarksForm)) ''markers'' = Some (PBool True)
   \<and> field_data (bound_fields (new_form SearchBookmarksForm)) ''deep'' = Some (PBool False)
   \<and> field_data (bound_fields (new_form SearchBookmarksForm)) ''regex'' = Some (PBool False)"
proof (intro conjI allI impI)
  fix v es
  assume "FieldList_process (UnboundField StringField [] [] PNone) 1 v = Inr es"
  then show "1 \<le> length es" by (rule FieldList_process_min_entries)
next
  fix dat bs
  assume p: "process (form_fields SearchBookmarksForm) dat = Inr bs"
  { assume "dat ''all_keywords'' = None"
    with p show "field_data bs ''all_keywords'' = Some (PBool True)"
      by (auto simp: search_defs field_data_def Field_process_def UnboundField_def
          process_data_field_def formdata_name_def Let_def split: sum.splits) }
  { assume "dat ''markers'' = None"
    with p show "field_data bs ''markers'' = Some (PBool True)"
      by (auto simp: search_defs field_data_def Field_process_def UnboundField_def
          process_data_field_def formdata_name_def Let_def split: sum.splits) }
  { assume "dat ''deep'' = None"
    with p show "field_data bs ''deep'' = Some (PBool False)"
      by (auto simp: search_defs field_data_def Field_process_def UnboundField_def
          process_data_field_def formdata_name_def Let_def split: sum.splits) }
  { assume "dat ''regex'' = None"
    with p show "field_data bs ''regex'' = Some (PBool False)"
      by (auto simp: search_defs field_data_def Field_process_def UnboundField_def
          process_data_field_def formdata_name_def Let_def split: sum.splits) }
qed (simp_all add: search_defs new_form_def field_data_def FieldList_process_def Field_process_def
      UnboundField_def process_data_field_def formdata_name_def Let_def)

theorem search_form_defaults_witness:
  "\<exists>bs. process (form_fields SearchBookmarksForm) [''keywords'' \<mapsto> PList [PStr ''isabelle'']] = Inr bs \<and>
     field_data bs ''all_keywords'' = Some (PBool True) \<and>
     field_data bs ''markers'' = Some (PBool True) \<and>
     field_data bs ''deep'' = Some (PBool False) \<and>
     field_data bs ''regex'' = Some (PBool False)"
proof -
  let ?dat = "[''keywords'' \<mapsto> PList [PStr ''isabelle'']]"
  have "\<exists>bs. process (form_fields SearchBookmarksForm) ?dat = Inr bs"
    by (simp add: search_defs FieldList_process_def)
  then obtain bs where p: "process (form_fields SearchBookmarksForm) ?dat = Inr bs" by blast
  from search_form_defaults p show ?thesis by simp
qed

text \<open>
  For comparison: in a form that is processed from submitted form data, a toggle the data
  does not mention is an unchecked box, and its data is False whatever its default.
\<close>

lemma checkbox_absent_in_formdata:
  "fd nm = None \<Longrightarrow> data (Field_process (UnboundField BooleanField [] [] d) nm (Some fd) None) = PBool False"
  by (simp add: Field_process_def UnboundField_def process_data_field_def process_formdata_def Let_def)

section \<open>The normalized tag string\<close>

text \<open>
  What line 63 stores for a list of strings: \<^verbatim>\<open>parse_tags\<close> applied to the one-element
  list that holds the tags joined by the delimiter in input order. Whether this equals the
  joined string itself depends on \<^verbatim>\<open>parse_tags\<close>, which is not part of the sources at
  hand.
\<close>

lemma strs_of_map_PStr: "strs_of (map PStr ts) = Inr ts"
  by (induction ts) simp_all

lemma tags_str_is_parse_tags_of_join:
  assumes "dat ''tags'' = Some (PList (map PStr ts))"
    and "process_data B self dat = Inr ((None, PNone), self')"
  shows "tags_str self' = Some (parse_tags B [join (DELIM B) ts])"
  using assms
  by (auto simp: process_data_def ApiBookmarkRangeEditForm_process_data_def ApiTagForm_process_data_def
      dict_get_def py_join_def strs_of_map_PStr Let_def
      split: if_splits sum.splits option.splits)

text \<open>
  On the edit form the step does succeed for every list of strings free of the delimiter,
  so the statement above is not empty.
\<close>

lemma valid_tag_entry:
  "DELIM B \<notin> set t \<Longrightarrow>
     Field_validate B (Field_process (UnboundField StringField [ValidateTag] [] PNone) nm None (Some (PStr t))) = []"
  by (simp add: Field_validate_def Field_process_def UnboundField_def process_data_field_def
      validate_tag_def Let_def)

lemma valid_tag_entries:
  assumes "\<forall>t\<in>set ts. DELIM B \<notin> set t"
  shows "FieldList_validate B
           (map (\<lambda>v. Field_process (UnboundField StringField [ValidateTag] [] PNone) [] None (Some v))
              (map PStr ts)) = []"
  using assms by (simp add: FieldList_validate_def list_ex_iff valid_tag_entry Let_def)

lemma FieldList_process_list:
  "FieldList_process u n (Some (PList xs)) =
     Inr (map (\<lambda>v. Field_process u [] None (Some v)) xs @
          replicate (n - length xs) (Field_process u [] None None))"
  using FieldList_process_guarded [of "Some (PList xs)" u n] by (simp add: passes_guard_def)

lemma no_validators_valid:
  "Field_validate B (Field_process (UnboundField c [] fs d) nm fd v) = []"
  by (simp add: Field_validate_def Field_process_def UnboundField_def Let_def)

lemma valid_tags_accepted:
  assumes "dat ''tags'' = Some (PList (map PStr ts))" and "\<forall>t\<in>set ts. DELIM B \<notin> set t"
  shows "\<exists>self'. process_data B (new_form ApiBookmarkEditForm) dat = Inr ((None, PNone), self') \<and>
           tags_str self' = Some (parse_tags B [join (DELIM B) ts])"
proof -
  have g: "passes_guard (dat ''tags'')" using assms(1) by (simp add: passes_guard_def)
  obtain bs where p: "process (form_fields ApiBookmarkEditForm) dat = Inr bs"
    using process_api_total [of dat ApiBookmarkEditForm] g by auto
  from p have v: "validate B bs"
    using assms(1) valid_tag_entries [OF assms(2)]
    by (auto simp: ApiTagForm_fields_def ApiBookmarkCreateForm_fields_def ApiBookmarkEditForm_fields_def
        inherit_def FieldList_process_list validate_def no_validators_valid)
  have j: "py_join (DELIM B) (PList (map PStr ts)) = Inr (join (DELIM B) ts)"
    by (simp add: py_join_def strs_of_map_PStr)
  show ?thesis
    using assms(1) p v j
    by (cases ts) (simp_all add: process_data_def ApiTagForm_process_data_def dict_get_def)
qed

end
